theory Spec2Isabelle
  imports Main
begin

section \<open>Console output and run-time panics\<close>

text \<open>
  Both Go programs only write to standard output with \<^verbatim>\<open>fmt.Print\<close> and
  \<^verbatim>\<open>fmt.Println\<close>. The only run-time failure they can meet is Go's
  "invalid memory address or nil pointer dereference" panic, raised when a method is
  called on a nil interface value or a field is read through a nil pointer. A panic
  aborts the program; what was printed before it stays printed.
\<close>

datatype fault = NilDereference

record console =
  stdout :: string

type_synonym ('s, 'a) run = "'s \<Rightarrow> (fault + 'a) \<times> 's"

definition return :: "'a \<Rightarrow> ('s, 'a) run" where
  "return x s = (Inr x, s)"

definition panic :: "fault \<Rightarrow> ('s, 'a) run" where
  "panic e s = (Inl e, s)"

definition bind_run :: "('s, 'a) run \<Rightarrow> ('a \<Rightarrow> ('s, 'b) run) \<Rightarrow> ('s, 'b) run" where
  "bind_run m k s = (case m s of (Inl e, s') \<Rightarrow> (Inl e, s') | (Inr x, s') \<Rightarrow> k x s')"

definition seq :: "('s, unit) run \<Rightarrow> ('s, 'b) run \<Rightarrow> ('s, 'b) run" where
  "seq m n = bind_run m (\<lambda>_. n)"

definition Print :: "string \<Rightarrow> ('z console_scheme, unit) run" where
  "Print t w = (Inr (), w\<lparr>stdout := stdout w @ t\<rparr>)"

definition Println :: "('z console_scheme, unit) run" where
  "Println = Print [CHR 0x0A]"

text \<open>Reading a struct through a pointer: nil panics, anything else yields the struct.\<close>

definition deref :: "'a option \<Rightarrow> ('s, 'a) run" where
  "deref p = (case p of None \<Rightarrow> panic NilDereference | Some v \<Rightarrow> return v)"

section \<open>The explicit-argument program (go-oop-template-method.go)\<close>

text \<open>
  No statement of this program assigns to a field after construction, so a pointer is
  modelled as an optional value: \<open>None\<close> is nil, \<open>Some v\<close> points to the struct \<open>v\<close>.
  \<^verbatim>\<open>type ShapeBase struct{}\<close>, \<^verbatim>\<open>type Circle struct { *ShapeBase }\<close>,
  \<^verbatim>\<open>type RedRectangle struct { *ShapeBase }\<close>,
  \<^verbatim>\<open>type BlueCircleWithText struct { *Circle }\<close>.
\<close>

datatype ShapeBase_arg = ShapeBase_arg

datatype Circle_arg = Circle_arg "ShapeBase_arg option"

datatype RedRectangle_arg = RedRectangle_arg "ShapeBase_arg option"

datatype BlueCircleWithText_arg = BlueCircleWithText_arg "Circle_arg option"

text \<open>
  A value of the interface type \<^verbatim>\<open>Shape\<close> is nil or a pointer tagged with its
  dynamic type; the four pointer types are the ones that have all three methods.
\<close>

datatype Shape_arg =
    Shape_nil_arg
  | Shape_ShapeBase_arg "ShapeBase_arg option"
  | Shape_Circle_arg "Circle_arg option"
  | Shape_RedRectangle_arg "RedRectangle_arg option"
  | Shape_BlueCircleWithText_arg "BlueCircleWithText_arg option"

subsection \<open>Primitive operations\<close>

definition ShapeBase_drawBoundary_arg :: "ShapeBase_arg option \<Rightarrow> (console, unit) run" where
  "ShapeBase_drawBoundary_arg sb = Print ''draw nothing''"

definition ShapeBase_fillColor_arg :: "ShapeBase_arg option \<Rightarrow> (console, unit) run" where
  "ShapeBase_fillColor_arg sb = Print ''fill nothing''"

definition Circle_drawBoundary_arg :: "Circle_arg option \<Rightarrow> (console, unit) run" where
  "Circle_drawBoundary_arg c = Print ''Circle''"

text \<open>Promoted from the embedded \<^verbatim>\<open>*ShapeBase\<close>: \<^verbatim>\<open>c.ShapeBase.fillColor()\<close>.\<close>

definition Circle_fillColor_arg :: "Circle_arg option \<Rightarrow> (console, unit) run" where
  "Circle_fillColor_arg c =
     bind_run (deref c) (\<lambda>x. case x of Circle_arg sb \<Rightarrow> ShapeBase_fillColor_arg sb)"

definition RedRectangle_drawBoundary_arg :: "RedRectangle_arg option \<Rightarrow> (console, unit) run" where
  "RedRectangle_drawBoundary_arg rt = Print ''Rectangle''"

definition RedRectangle_fillColor_arg :: "RedRectangle_arg option \<Rightarrow> (console, unit) run" where
  "RedRectangle_fillColor_arg rt = Print ''Red''"

text \<open>Promoted from the embedded \<^verbatim>\<open>*Circle\<close>: \<^verbatim>\<open>bct.Circle.drawBoundary()\<close>.\<close>

definition BlueCircleWithText_drawBoundary_arg ::
  "BlueCircleWithText_arg option \<Rightarrow> (console, unit) run" where
  "BlueCircleWithText_drawBoundary_arg bct =
     bind_run (deref bct) (\<lambda>x. case x of BlueCircleWithText_arg c \<Rightarrow> Circle_drawBoundary_arg c)"

definition BlueCircleWithText_fillColor_arg ::
  "BlueCircleWithText_arg option \<Rightarrow> (console, unit) run" where
  "BlueCircleWithText_fillColor_arg bct = Print ''Blue''"

subsection \<open>Calls through the interface\<close>

definition Shape_drawBoundary_arg :: "Shape_arg \<Rightarrow> (console, unit) run" where
  "Shape_drawBoundary_arg s =
     (case s of
        Shape_nil_arg \<Rightarrow> panic NilDereference
      | Shape_ShapeBase_arg p \<Rightarrow> ShapeBase_drawBoundary_arg p
      | Shape_Circle_arg p \<Rightarrow> Circle_drawBoundary_arg p
      | Shape_RedRectangle_arg p \<Rightarrow> RedRectangle_drawBoundary_arg p
      | Shape_BlueCircleWithText_arg p \<Rightarrow> BlueCircleWithText_drawBoundary_arg p)"

definition Shape_fillColor_arg :: "Shape_arg \<Rightarrow> (console, unit) run" where
  "Shape_fillColor_arg s =
     (case s of
        Shape_nil_arg \<Rightarrow> panic NilDereference
      | Shape_ShapeBase_arg p \<Rightarrow> ShapeBase_fillColor_arg p
      | Shape_Circle_arg p \<Rightarrow> Circle_fillColor_arg p
      | Shape_RedRectangle_arg p \<Rightarrow> RedRectangle_fillColor_arg p
      | Shape_BlueCircleWithText_arg p \<Rightarrow> BlueCircleWithText_fillColor_arg p)"

subsection \<open>The composite operation\<close>

text \<open>
  \<^verbatim>\<open>func (_ *ShapeBase) draw(sb Shape)\<close>: the receiver is not named and never read.
\<close>

definition ShapeBase_draw_arg :: "ShapeBase_arg option \<Rightarrow> Shape_arg \<Rightarrow> (console, unit) run" where
  "ShapeBase_draw_arg recv sb =
     seq (Shape_drawBoundary_arg sb) (seq (Print ''-'') (Shape_fillColor_arg sb))"

text \<open>Promoted: \<^verbatim>\<open>c.ShapeBase.draw(s)\<close> and \<^verbatim>\<open>rt.ShapeBase.draw(s)\<close>.\<close>

definition Circle_draw_arg :: "Circle_arg option \<Rightarrow> Shape_arg \<Rightarrow> (console, unit) run" where
  "Circle_draw_arg c s =
     bind_run (deref c) (\<lambda>x. case x of Circle_arg sb \<Rightarrow> ShapeBase_draw_arg sb s)"

definition RedRectangle_draw_arg :: "RedRectangle_arg option \<Rightarrow> Shape_arg \<Rightarrow> (console, unit) run" where
  "RedRectangle_draw_arg rt s =
     bind_run (deref rt) (\<lambda>x. case x of RedRectangle_arg sb \<Rightarrow> ShapeBase_draw_arg sb s)"

definition BlueCircleWithText_draw_arg ::
  "BlueCircleWithText_arg option \<Rightarrow> Shape_arg \<Rightarrow> (console, unit) run" where
  "BlueCircleWithText_draw_arg bct s =
     seq (bind_run (deref bct) (\<lambda>x. case x of BlueCircleWithText_arg c \<Rightarrow> Circle_draw_arg c s))
         (Print ''-TextAnnotation'')"

definition Shape_draw_arg :: "Shape_arg \<Rightarrow> Shape_arg \<Rightarrow> (console, unit) run" where
  "Shape_draw_arg s a =
     (case s of
        Shape_nil_arg \<Rightarrow> panic NilDereference
      | Shape_ShapeBase_arg p \<Rightarrow> ShapeBase_draw_arg p a
      | Shape_Circle_arg p \<Rightarrow> Circle_draw_arg p a
      | Shape_RedRectangle_arg p \<Rightarrow> RedRectangle_draw_arg p a
      | Shape_BlueCircleWithText_arg p \<Rightarrow> BlueCircleWithText_draw_arg p a)"

subsection \<open>Constructors and driver\<close>

definition NewCircle_arg :: "Circle_arg option" where
  "NewCircle_arg = Some (Circle_arg (Some ShapeBase_arg))"

definition NewRedRectangle_arg :: "RedRectangle_arg option" where
  "NewRedRectangle_arg = Some (RedRectangle_arg (Some ShapeBase_arg))"

text \<open>\<^verbatim>\<open>&BlueCircleWithText{&Circle{}}\<close>: the inner Circle is a zero value.\<close>

definition NewBlueCircleWithText_arg :: "BlueCircleWithText_arg option" where
  "NewBlueCircleWithText_arg = Some (BlueCircleWithText_arg (Some (Circle_arg None)))"

definition shapes_arg :: "Shape_arg list" where
  "shapes_arg =
     [Shape_ShapeBase_arg (Some ShapeBase_arg),
      Shape_Circle_arg NewCircle_arg,
      Shape_RedRectangle_arg NewRedRectangle_arg,
      Shape_BlueCircleWithText_arg NewBlueCircleWithText_arg]"

fun range_arg :: "Shape_arg list \<Rightarrow> (console, unit) run" where
  "range_arg [] = return ()"
| "range_arg (s # ss) = seq (Shape_draw_arg s s) (seq Println (range_arg ss))"

definition main_arg :: "(console, unit) run" where
  "main_arg = range_arg shapes_arg"

definition start_arg :: console where
  "start_arg = \<lparr>stdout = []\<rparr>"

section \<open>The embedded-interface program\<close>

text \<open>
  Here the constructors assign to the embedded \<^verbatim>\<open>Shape\<close> field after the structs
  are allocated, and the value assigned is a pointer to the enclosing struct itself, so
  the structs live in a store. Go is memory-safe: a non-nil pointer always refers to a
  struct of its type, hence one total store per struct type, with nil the only pointer
  that cannot be read. \<open>fresh\<close> is the next unused address.
  \<^verbatim>\<open>type ShapeAbstract struct { Shape }\<close>, \<^verbatim>\<open>type ShapeBase struct { *ShapeAbstract }\<close>,
  \<^verbatim>\<open>type Circle struct { *ShapeBase }\<close>, \<^verbatim>\<open>type RedRectangle struct { *ShapeBase }\<close>,
  \<^verbatim>\<open>type BlueCircleWithText struct { *Circle }\<close>.
\<close>

type_synonym addr = nat

text \<open>
  A value of the interface type \<^verbatim>\<open>Shape\<close> is nil or a pointer (possibly a nil pointer)
  tagged with its dynamic type. The dynamic types are the four pointer types the program
  stores in a \<^verbatim>\<open>Shape\<close>. \<^verbatim>\<open>ShapeAbstract\<close> and \<^verbatim>\<open>*ShapeAbstract\<close> have the three methods
  too, but no statement of the program converts one to \<^verbatim>\<open>Shape\<close>, so they are not among
  the interface values here.
\<close>

datatype Shape_emb =
    Shape_nil_emb
  | Shape_ShapeBase_emb "addr option"
  | Shape_Circle_emb "addr option"
  | Shape_RedRectangle_emb "addr option"
  | Shape_BlueCircleWithText_emb "addr option"

datatype ShapeAbstract_emb = ShapeAbstract_emb Shape_emb

datatype ShapeBase_emb = ShapeBase_emb "addr option"

datatype Circle_emb = Circle_emb "addr option"

datatype RedRectangle_emb = RedRectangle_emb "addr option"

datatype BlueCircleWithText_emb = BlueCircleWithText_emb "addr option"

record memory = console +
  abstracts :: "addr \<Rightarrow> ShapeAbstract_emb"
  bases :: "addr \<Rightarrow> ShapeBase_emb"
  circles :: "addr \<Rightarrow> Circle_emb"
  rectangles :: "addr \<Rightarrow> RedRectangle_emb"
  bluecircles :: "addr \<Rightarrow> BlueCircleWithText_emb"
  fresh :: addr

subsection \<open>Reading through pointers, allocation, field selectors\<close>

definition load :: "(memory \<Rightarrow> addr \<Rightarrow> 'a) \<Rightarrow> addr option \<Rightarrow> (memory, 'a) run" where
  "load store p w =
     (case p of None \<Rightarrow> (Inl NilDereference, w) | Some a \<Rightarrow> (Inr (store w a), w))"

definition new_ShapeAbstract :: "ShapeAbstract_emb \<Rightarrow> (memory, addr option) run" where
  "new_ShapeAbstract v w =
     (Inr (Some (fresh w)), w\<lparr>abstracts := (abstracts w)(fresh w := v), fresh := Suc (fresh w)\<rparr>)"

definition new_ShapeBase :: "ShapeBase_emb \<Rightarrow> (memory, addr option) run" where
  "new_ShapeBase v w =
     (Inr (Some (fresh w)), w\<lparr>bases := (bases w)(fresh w := v), fresh := Suc (fresh w)\<rparr>)"

definition new_Circle :: "Circle_emb \<Rightarrow> (memory, addr option) run" where
  "new_Circle v w =
     (Inr (Some (fresh w)), w\<lparr>circles := (circles w)(fresh w := v), fresh := Suc (fresh w)\<rparr>)"

definition new_RedRectangle :: "RedRectangle_emb \<Rightarrow> (memory, addr option) run" where
  "new_RedRectangle v w =
     (Inr (Some (fresh w)),
      w\<lparr>rectangles := (rectangles w)(fresh w := v), fresh := Suc (fresh w)\<rparr>)"

definition new_BlueCircleWithText :: "BlueCircleWithText_emb \<Rightarrow> (memory, addr option) run" where
  "new_BlueCircleWithText v w =
     (Inr (Some (fresh w)),
      w\<lparr>bluecircles := (bluecircles w)(fresh w := v), fresh := Suc (fresh w)\<rparr>)"

text \<open>The embedded pointer fields \<^verbatim>\<open>x.ShapeAbstract\<close>, \<^verbatim>\<open>x.ShapeBase\<close>, \<^verbatim>\<open>x.Circle\<close>.\<close>

definition ShapeBase_ShapeAbstract :: "addr option \<Rightarrow> (memory, addr option) run" where
  "ShapeBase_ShapeAbstract sb =
     bind_run (load bases sb) (\<lambda>x. case x of ShapeBase_emb q \<Rightarrow> return q)"

definition Circle_ShapeBase :: "addr option \<Rightarrow> (memory, addr option) run" where
  "Circle_ShapeBase c =
     bind_run (load circles c) (\<lambda>x. case x of Circle_emb q \<Rightarrow> return q)"

definition RedRectangle_ShapeBase :: "addr option \<Rightarrow> (memory, addr option) run" where
  "RedRectangle_ShapeBase rt =
     bind_run (load rectangles rt) (\<lambda>x. case x of RedRectangle_emb q \<Rightarrow> return q)"

definition BlueCircleWithText_Circle :: "addr option \<Rightarrow> (memory, addr option) run" where
  "BlueCircleWithText_Circle bct =
     bind_run (load bluecircles bct) (\<lambda>x. case x of BlueCircleWithText_emb q \<Rightarrow> return q)"

text \<open>
  The promoted field \<^verbatim>\<open>x.Shape\<close>: there is one such field per instance, in the
  \<^verbatim>\<open>ShapeAbstract\<close> at the end of the chain of embedded pointers.
\<close>

definition ShapeAbstract_Shape :: "addr option \<Rightarrow> (memory, Shape_emb) run" where
  "ShapeAbstract_Shape sa =
     bind_run (load abstracts sa) (\<lambda>x. case x of ShapeAbstract_emb i \<Rightarrow> return i)"

definition ShapeBase_Shape :: "addr option \<Rightarrow> (memory, Shape_emb) run" where
  "ShapeBase_Shape sb = bind_run (ShapeBase_ShapeAbstract sb) ShapeAbstract_Shape"

definition Circle_Shape :: "addr option \<Rightarrow> (memory, Shape_emb) run" where
  "Circle_Shape c = bind_run (Circle_ShapeBase c) ShapeBase_Shape"

definition RedRectangle_Shape :: "addr option \<Rightarrow> (memory, Shape_emb) run" where
  "RedRectangle_Shape rt = bind_run (RedRectangle_ShapeBase rt) ShapeBase_Shape"

definition BlueCircleWithText_Shape :: "addr option \<Rightarrow> (memory, Shape_emb) run" where
  "BlueCircleWithText_Shape bct = bind_run (BlueCircleWithText_Circle bct) Circle_Shape"

text \<open>The assignment \<^verbatim>\<open>x.Shape = v\<close>.\<close>

definition ShapeAbstract_set_Shape :: "addr option \<Rightarrow> Shape_emb \<Rightarrow> (memory, unit) run" where
  "ShapeAbstract_set_Shape sa v w =
     (case sa of
        None \<Rightarrow> (Inl NilDereference, w)
      | Some a \<Rightarrow> (Inr (), w\<lparr>abstracts := (abstracts w)(a := ShapeAbstract_emb v)\<rparr>))"

definition ShapeBase_set_Shape :: "addr option \<Rightarrow> Shape_emb \<Rightarrow> (memory, unit) run" where
  "ShapeBase_set_Shape sb v =
     bind_run (ShapeBase_ShapeAbstract sb) (\<lambda>sa. ShapeAbstract_set_Shape sa v)"

definition Circle_set_Shape :: "addr option \<Rightarrow> Shape_emb \<Rightarrow> (memory, unit) run" where
  "Circle_set_Shape c v = bind_run (Circle_ShapeBase c) (\<lambda>sb. ShapeBase_set_Shape sb v)"

definition RedRectangle_set_Shape :: "addr option \<Rightarrow> Shape_emb \<Rightarrow> (memory, unit) run" where
  "RedRectangle_set_Shape rt v =
     bind_run (RedRectangle_ShapeBase rt) (\<lambda>sb. ShapeBase_set_Shape sb v)"

definition BlueCircleWithText_set_Shape :: "addr option \<Rightarrow> Shape_emb \<Rightarrow> (memory, unit) run" where
  "BlueCircleWithText_set_Shape bct v =
     bind_run (BlueCircleWithText_Circle bct) (\<lambda>c. Circle_set_Shape c v)"

subsection \<open>Primitive operations\<close>

definition ShapeBase_drawBoundary_emb :: "addr option \<Rightarrow> (memory, unit) run" where
  "ShapeBase_drawBoundary_emb sb = Print ''draw nothing''"

definition ShapeBase_fillColor_emb :: "addr option \<Rightarrow> (memory, unit) run" where
  "ShapeBase_fillColor_emb sb = Print ''fill nothing''"

definition Circle_drawBoundary_emb :: "addr option \<Rightarrow> (memory, unit) run" where
  "Circle_drawBoundary_emb c = Print ''Circle''"

definition Circle_fillColor_emb :: "addr option \<Rightarrow> (memory, unit) run" where
  "Circle_fillColor_emb c = bind_run (Circle_ShapeBase c) ShapeBase_fillColor_emb"

definition RedRectangle_drawBoundary_emb :: "addr option \<Rightarrow> (memory, unit) run" where
  "RedRectangle_drawBoundary_emb rt = Print ''Rectangle''"

definition RedRectangle_fillColor_emb :: "addr option \<Rightarrow> (memory, unit) run" where
  "RedRectangle_fillColor_emb rt = Print ''Red''"

definition BlueCircleWithText_drawBoundary_emb :: "addr option \<Rightarrow> (memory, unit) run" where
  "BlueCircleWithText_drawBoundary_emb bct =
     bind_run (BlueCircleWithText_Circle bct) Circle_drawBoundary_emb"

definition BlueCircleWithText_fillColor_emb :: "addr option \<Rightarrow> (memory, unit) run" where
  "BlueCircleWithText_fillColor_emb bct = Print ''Blue''"

subsection \<open>Calls through the interface\<close>

definition Shape_drawBoundary_emb :: "Shape_emb \<Rightarrow> (memory, unit) run" where
  "Shape_drawBoundary_emb s =
     (case s of
        Shape_nil_emb \<Rightarrow> panic NilDereference
      | Shape_ShapeBase_emb p \<Rightarrow> ShapeBase_drawBoundary_emb p
      | Shape_Circle_emb p \<Rightarrow> Circle_drawBoundary_emb p
      | Shape_RedRectangle_emb p \<Rightarrow> RedRectangle_drawBoundary_emb p
      | Shape_BlueCircleWithText_emb p \<Rightarrow> BlueCircleWithText_drawBoundary_emb p)"

definition Shape_fillColor_emb :: "Shape_emb \<Rightarrow> (memory, unit) run" where
  "Shape_fillColor_emb s =
     (case s of
        Shape_nil_emb \<Rightarrow> panic NilDereference
      | Shape_ShapeBase_emb p \<Rightarrow> ShapeBase_fillColor_emb p
      | Shape_Circle_emb p \<Rightarrow> Circle_fillColor_emb p
      | Shape_RedRectangle_emb p \<Rightarrow> RedRectangle_fillColor_emb p
      | Shape_BlueCircleWithText_emb p \<Rightarrow> BlueCircleWithText_fillColor_emb p)"

subsection \<open>The composite operation\<close>

text \<open>
  \<^verbatim>\<open>func (sa ShapeAbstract) draw()\<close> has a value receiver; \<^verbatim>\<open>sa.drawBoundary()\<close> and
  \<^verbatim>\<open>sa.fillColor()\<close> are the methods of the embedded interface value \<^verbatim>\<open>sa.Shape\<close>.
\<close>

definition ShapeAbstract_drawBoundary_emb :: "ShapeAbstract_emb \<Rightarrow> (memory, unit) run" where
  "ShapeAbstract_drawBoundary_emb sa = (case sa of ShapeAbstract_emb i \<Rightarrow> Shape_drawBoundary_emb i)"

definition ShapeAbstract_fillColor_emb :: "ShapeAbstract_emb \<Rightarrow> (memory, unit) run" where
  "ShapeAbstract_fillColor_emb sa = (case sa of ShapeAbstract_emb i \<Rightarrow> Shape_fillColor_emb i)"

definition ShapeAbstract_draw_emb :: "ShapeAbstract_emb \<Rightarrow> (memory, unit) run" where
  "ShapeAbstract_draw_emb sa =
     seq (ShapeAbstract_drawBoundary_emb sa) (seq (Print ''-'') (ShapeAbstract_fillColor_emb sa))"

text \<open>
  Promoted through the embedded pointers: \<^verbatim>\<open>(*sb.ShapeAbstract).draw()\<close>,
  \<^verbatim>\<open>c.ShapeBase.draw()\<close>, \<^verbatim>\<open>rt.ShapeBase.draw()\<close>.
\<close>

definition ShapeBase_draw_emb :: "addr option \<Rightarrow> (memory, unit) run" where
  "ShapeBase_draw_emb sb =
     bind_run (ShapeBase_ShapeAbstract sb) (\<lambda>q. bind_run (load abstracts q) ShapeAbstract_draw_emb)"

definition Circle_draw_emb :: "addr option \<Rightarrow> (memory, unit) run" where
  "Circle_draw_emb c = bind_run (Circle_ShapeBase c) ShapeBase_draw_emb"

definition RedRectangle_draw_emb :: "addr option \<Rightarrow> (memory, unit) run" where
  "RedRectangle_draw_emb rt = bind_run (RedRectangle_ShapeBase rt) ShapeBase_draw_emb"

definition BlueCircleWithText_draw_emb :: "addr option \<Rightarrow> (memory, unit) run" where
  "BlueCircleWithText_draw_emb bct =
     seq (bind_run (BlueCircleWithText_Circle bct) Circle_draw_emb) (Print ''-TextAnnotation'')"

definition Shape_draw_emb :: "Shape_emb \<Rightarrow> (memory, unit) run" where
  "Shape_draw_emb s =
     (case s of
        Shape_nil_emb \<Rightarrow> panic NilDereference
      | Shape_ShapeBase_emb p \<Rightarrow> ShapeBase_draw_emb p
      | Shape_Circle_emb p \<Rightarrow> Circle_draw_emb p
      | Shape_RedRectangle_emb p \<Rightarrow> RedRectangle_draw_emb p
      | Shape_BlueCircleWithText_emb p \<Rightarrow> BlueCircleWithText_draw_emb p)"

subsection \<open>Constructors and driver\<close>

definition NewShapeBase_emb :: "(memory, addr option) run" where
  "NewShapeBase_emb =
     bind_run (new_ShapeAbstract (ShapeAbstract_emb Shape_nil_emb)) (\<lambda>sa.
     bind_run (new_ShapeBase (ShapeBase_emb sa)) (\<lambda>sb.
     seq (ShapeBase_set_Shape sb (Shape_ShapeBase_emb sb))
         (return sb)))"

definition NewCircle_emb :: "(memory, addr option) run" where
  "NewCircle_emb =
     bind_run NewShapeBase_emb (\<lambda>sb.
     bind_run (new_Circle (Circle_emb sb)) (\<lambda>c.
     seq (Circle_set_Shape c (Shape_Circle_emb c))
         (return c)))"

definition NewRedRectangle_emb :: "(memory, addr option) run" where
  "NewRedRectangle_emb =
     bind_run NewShapeBase_emb (\<lambda>sb.
     bind_run (new_RedRectangle (RedRectangle_emb sb)) (\<lambda>rr.
     seq (RedRectangle_set_Shape rr (Shape_RedRectangle_emb rr))
         (return rr)))"

definition NewBlueCircleWithText_emb :: "(memory, addr option) run" where
  "NewBlueCircleWithText_emb =
     bind_run NewCircle_emb (\<lambda>c.
     bind_run (new_BlueCircleWithText (BlueCircleWithText_emb c)) (\<lambda>bct.
     seq (BlueCircleWithText_set_Shape bct (Shape_BlueCircleWithText_emb bct))
         (return bct)))"

fun range_emb :: "Shape_emb list \<Rightarrow> (memory, unit) run" where
  "range_emb [] = return ()"
| "range_emb (s # ss) = seq (Shape_draw_emb s) (seq Println (range_emb ss))"

definition main_emb :: "(memory, unit) run" where
  "main_emb =
     bind_run NewShapeBase_emb (\<lambda>sb.
     bind_run NewCircle_emb (\<lambda>c.
     bind_run NewRedRectangle_emb (\<lambda>rr.
     bind_run NewBlueCircleWithText_emb (\<lambda>bct.
     range_emb [Shape_ShapeBase_emb sb, Shape_Circle_emb c,
                Shape_RedRectangle_emb rr, Shape_BlueCircleWithText_emb bct]))))"

text \<open>At program start nothing is allocated: every cell holds its type's zero value.\<close>

definition start_emb :: memory where
  "start_emb =
     \<lparr>stdout = [],
      abstracts = (\<lambda>_. ShapeAbstract_emb Shape_nil_emb),
      bases = (\<lambda>_. ShapeBase_emb None),
      circles = (\<lambda>_. Circle_emb None),
      rectangles = (\<lambda>_. RedRectangle_emb None),
      bluecircles = (\<lambda>_. BlueCircleWithText_emb None),
      fresh = 0\<rparr>"

section \<open>Observations\<close>

text \<open>
  \<open>written w w'\<close> is the text appended to standard output between the states \<open>w\<close> and
  \<open>w'\<close>. A run is \<open>quiet\<close> when its result and the text it prints do not depend on what
  is already on standard output, and it changes nothing but standard output.
\<close>

definition written :: "'z console_scheme \<Rightarrow> 'z console_scheme \<Rightarrow> string" where
  "written w w' = drop (length (stdout w)) (stdout w')"

definition quiet :: "('z console_scheme, 'a) run \<Rightarrow> bool" where
  "quiet m \<longleftrightarrow> (\<forall>w. \<exists>r t. \<forall>out. m (w\<lparr>stdout := out\<rparr>) = (r, w\<lparr>stdout := out @ t\<rparr>))"

text \<open>
  Stores in which no \<^verbatim>\<open>x.Shape = x\<close> was ever executed. \<open>lone_base_emb\<close> is the store
  after the two allocations of \<^verbatim>\<open>NewShapeBase\<close> alone, with one base at address 1.
  \<open>zero_base_emb\<close> holds one zero-valued \<^verbatim>\<open>&ShapeBase{}\<close> at address 0, whose
  \<^verbatim>\<open>*ShapeAbstract\<close> is nil. \<open>apart_emb\<close> holds one instance of each type, each with its own
  chain of embedded structs, at the addresses the driver's constructors would use: the base at
  1, the Circle at 4, the RedRectangle at 7, the BlueCircleWithText at 11.
\<close>

definition lone_base_emb :: memory where
  "lone_base_emb =
     snd (bind_run (new_ShapeAbstract (ShapeAbstract_emb Shape_nil_emb))
            (\<lambda>sa. new_ShapeBase (ShapeBase_emb sa)) start_emb)"

definition zero_base_emb :: memory where
  "zero_base_emb = snd (new_ShapeBase (ShapeBase_emb None) start_emb)"

definition apart_emb :: memory where
  "apart_emb =
     start_emb\<lparr>bases := (bases start_emb)
                 (1 := ShapeBase_emb (Some 0), 3 := ShapeBase_emb (Some 2),
                  6 := ShapeBase_emb (Some 5), 9 := ShapeBase_emb (Some 8)),
               circles := (circles start_emb)
                 (4 := Circle_emb (Some 3), 10 := Circle_emb (Some 9)),
               rectangles := (rectangles start_emb)(7 := RedRectangle_emb (Some 6)),
               bluecircles := (bluecircles start_emb)(11 := BlueCircleWithText_emb (Some 10)),
               fresh := 12\<rparr>"

section \<open>Sequencing laws\<close>

lemma quietI:
  assumes "\<And>w. \<exists>r t. \<forall>out. m (w\<lparr>stdout := out\<rparr>) = (r, w\<lparr>stdout := out @ t\<rparr>)"
  shows "quiet m"
  using assms by (simp add: quiet_def)

lemma quiet_return: "quiet (return x)"
proof (rule quietI)
  fix w :: "'a console_scheme"
  have "\<forall>out. return x (w\<lparr>stdout := out\<rparr>) = (Inr x, w\<lparr>stdout := out @ []\<rparr>)"
    by (simp add: return_def)
  then show "\<exists>r t. \<forall>out. return x (w\<lparr>stdout := out\<rparr>) = (r, w\<lparr>stdout := out @ t\<rparr>)"
    by blast
qed

lemma quiet_panic: "quiet (panic e)"
proof (rule quietI)
  fix w :: "'a console_scheme"
  have "\<forall>out. panic e (w\<lparr>stdout := out\<rparr>) = (Inl e, w\<lparr>stdout := out @ []\<rparr>)"
    by (simp add: panic_def)
  then show "\<exists>r t. \<forall>out. panic e (w\<lparr>stdout := out\<rparr>) = (r :: fault + 'b, w\<lparr>stdout := out @ t\<rparr>)"
    by blast
qed

lemma quiet_Print: "quiet (Print t)"
proof (rule quietI)
  fix w :: "'a console_scheme"
  have "\<forall>out. Print t (w\<lparr>stdout := out\<rparr>) = (Inr (), w\<lparr>stdout := out @ t\<rparr>)"
    by (simp add: Print_def)
  then show "\<exists>r u. \<forall>out. Print t (w\<lparr>stdout := out\<rparr>) = (r, w\<lparr>stdout := out @ u\<rparr>)"
    by blast
qed

lemma quiet_bind:
  assumes m: "quiet m" and k: "\<And>x. quiet (k x)"
  shows "quiet (bind_run m k)"
proof (rule quietI)
  fix w :: "'a console_scheme"
  from m obtain r t where mw: "\<And>out. m (w\<lparr>stdout := out\<rparr>) = (r, w\<lparr>stdout := out @ t\<rparr>)"
    unfolding quiet_def by blast
  show "\<exists>r t. \<forall>out. bind_run m k (w\<lparr>stdout := out\<rparr>) = (r, w\<lparr>stdout := out @ t\<rparr>)"
  proof (cases r)
    case (Inl e)
    then have "\<forall>out. bind_run m k (w\<lparr>stdout := out\<rparr>) = (Inl e, w\<lparr>stdout := out @ t\<rparr>)"
      by (simp add: bind_run_def mw)
    then show ?thesis by blast
  next
    case (Inr x)
    from k [of x] obtain r' t'
      where kw: "\<And>out. k x (w\<lparr>stdout := out\<rparr>) = (r', w\<lparr>stdout := out @ t'\<rparr>)"
      unfolding quiet_def by blast
    have "\<forall>out. bind_run m k (w\<lparr>stdout := out\<rparr>) = (r', w\<lparr>stdout := out @ (t @ t')\<rparr>)"
    proof
      fix out
      have "k x (w\<lparr>stdout := out @ t\<rparr>) = (r', w\<lparr>stdout := (out @ t) @ t'\<rparr>)"
        using kw [of "out @ t"] by simp
      then show "bind_run m k (w\<lparr>stdout := out\<rparr>) = (r', w\<lparr>stdout := out @ (t @ t')\<rparr>)"
        by (simp add: bind_run_def mw Inr)
    qed
    then show ?thesis by blast
  qed
qed

lemma quiet_seq: "quiet m \<Longrightarrow> quiet n \<Longrightarrow> quiet (seq m n)"
  by (simp add: seq_def quiet_bind)

lemma quiet_deref: "quiet (deref p)"
  by (cases p) (simp_all add: deref_def quiet_panic quiet_return)

lemma quiet_load:
  assumes that: "\<And>w out a. store (w\<lparr>stdout := out\<rparr>) a = store w a"
  shows "quiet (load store p)"
proof (rule quietI)
  fix w :: memory
  show "\<exists>r t. \<forall>out. load store p (w\<lparr>stdout := out\<rparr>) = (r, w\<lparr>stdout := out @ t\<rparr>)"
  proof (cases p)
    case None
    then have "\<forall>out. load store p (w\<lparr>stdout := out\<rparr>) = (Inl NilDereference, w\<lparr>stdout := out @ []\<rparr>)"
      by (simp add: load_def)
    then show ?thesis by blast
  next
    case (Some a)
    then have "\<forall>out. load store p (w\<lparr>stdout := out\<rparr>) = (Inr (store w a), w\<lparr>stdout := out @ []\<rparr>)"
      by (simp add: load_def that)
    then show ?thesis by blast
  qed
qed

lemma quiet_twice:
  assumes q: "quiet m" and 1: "m w = (r1, w1)" and 2: "m w1 = (r2, w2)"
  shows "r2 = r1 \<and> written w1 w2 = written w w1 \<and> w1\<lparr>stdout := stdout w\<rparr> = w"
proof -
  from q obtain r t where mw: "\<And>out. m (w\<lparr>stdout := out\<rparr>) = (r, w\<lparr>stdout := out @ t\<rparr>)"
    unfolding quiet_def by blast
  from mw [of "stdout w"] 1 have a: "r1 = r" "w1 = w\<lparr>stdout := stdout w @ t\<rparr>" by simp_all
  from mw [of "stdout w @ t"] 2 a have b: "r2 = r" "w2 = w\<lparr>stdout := (stdout w @ t) @ t\<rparr>" by simp_all
  show ?thesis by (simp add: a b written_def)
qed

section \<open>Unfolding sets and what the constructors build\<close>

lemmas run_defs = return_def panic_def bind_run_def seq_def Print_def Println_def deref_def

lemmas arg_defs =
  ShapeBase_drawBoundary_arg_def ShapeBase_fillColor_arg_def Circle_drawBoundary_arg_def
  Circle_fillColor_arg_def RedRectangle_drawBoundary_arg_def RedRectangle_fillColor_arg_def
  BlueCircleWithText_drawBoundary_arg_def BlueCircleWithText_fillColor_arg_def
  Shape_drawBoundary_arg_def Shape_fillColor_arg_def ShapeBase_draw_arg_def Circle_draw_arg_def
  RedRectangle_draw_arg_def BlueCircleWithText_draw_arg_def Shape_draw_arg_def

lemmas new_arg_defs = NewCircle_arg_def NewRedRectangle_arg_def NewBlueCircleWithText_arg_def

lemmas field_defs =
  load_def ShapeBase_ShapeAbstract_def Circle_ShapeBase_def RedRectangle_ShapeBase_def
  BlueCircleWithText_Circle_def ShapeAbstract_Shape_def ShapeBase_Shape_def Circle_Shape_def
  RedRectangle_Shape_def BlueCircleWithText_Shape_def ShapeAbstract_set_Shape_def
  ShapeBase_set_Shape_def Circle_set_Shape_def RedRectangle_set_Shape_def
  BlueCircleWithText_set_Shape_def

lemmas new_defs =
  new_ShapeAbstract_def new_ShapeBase_def new_Circle_def new_RedRectangle_def
  new_BlueCircleWithText_def

lemmas emb_defs =
  ShapeBase_drawBoundary_emb_def ShapeBase_fillColor_emb_def Circle_drawBoundary_emb_def
  Circle_fillColor_emb_def RedRectangle_drawBoundary_emb_def RedRectangle_fillColor_emb_def
  BlueCircleWithText_drawBoundary_emb_def BlueCircleWithText_fillColor_emb_def
  Shape_drawBoundary_emb_def Shape_fillColor_emb_def ShapeAbstract_drawBoundary_emb_def
  ShapeAbstract_fillColor_emb_def ShapeAbstract_draw_emb_def ShapeBase_draw_emb_def
  Circle_draw_emb_def RedRectangle_draw_emb_def BlueCircleWithText_draw_emb_def Shape_draw_emb_def

subsection \<open>What the constructors build\<close>

lemma NewShapeBase_emb_run:
  "NewShapeBase_emb w =
     (Inr (Some (Suc (fresh w))),
      w\<lparr>abstracts := (abstracts w)
           (fresh w := ShapeAbstract_emb (Shape_ShapeBase_emb (Some (Suc (fresh w))))),
        bases := (bases w)(Suc (fresh w) := ShapeBase_emb (Some (fresh w))),
        fresh := Suc (Suc (fresh w))\<rparr>)"
  by (simp add: NewShapeBase_emb_def run_defs field_defs new_defs)

lemma NewCircle_emb_run:
  "NewCircle_emb w =
     (Inr (Some (Suc (Suc (fresh w)))),
      w\<lparr>abstracts := (abstracts w)
           (fresh w := ShapeAbstract_emb (Shape_Circle_emb (Some (Suc (Suc (fresh w)))))),
        bases := (bases w)(Suc (fresh w) := ShapeBase_emb (Some (fresh w))),
        circles := (circles w)(Suc (Suc (fresh w)) := Circle_emb (Some (Suc (fresh w)))),
        fresh := Suc (Suc (Suc (fresh w)))\<rparr>)"
  by (simp add: NewCircle_emb_def NewShapeBase_emb_run run_defs field_defs new_defs)

lemma NewRedRectangle_emb_run:
  "NewRedRectangle_emb w =
     (Inr (Some (Suc (Suc (fresh w)))),
      w\<lparr>abstracts := (abstracts w)
           (fresh w := ShapeAbstract_emb (Shape_RedRectangle_emb (Some (Suc (Suc (fresh w)))))),
        bases := (bases w)(Suc (fresh w) := ShapeBase_emb (Some (fresh w))),
        rectangles := (rectangles w)
           (Suc (Suc (fresh w)) := RedRectangle_emb (Some (Suc (fresh w)))),
        fresh := Suc (Suc (Suc (fresh w)))\<rparr>)"
  by (simp add: NewRedRectangle_emb_def NewShapeBase_emb_run run_defs field_defs new_defs)

lemma NewBlueCircleWithText_emb_run:
  "NewBlueCircleWithText_emb w =
     (Inr (Some (Suc (Suc (Suc (fresh w))))),
      w\<lparr>abstracts := (abstracts w)
           (fresh w := ShapeAbstract_emb
              (Shape_BlueCircleWithText_emb (Some (Suc (Suc (Suc (fresh w))))))),
        bases := (bases w)(Suc (fresh w) := ShapeBase_emb (Some (fresh w))),
        circles := (circles w)(Suc (Suc (fresh w)) := Circle_emb (Some (Suc (fresh w)))),
        bluecircles := (bluecircles w)
           (Suc (Suc (Suc (fresh w))) := BlueCircleWithText_emb (Some (Suc (Suc (fresh w))))),
        fresh := Suc (Suc (Suc (Suc (fresh w))))\<rparr>)"
  by (simp add: NewBlueCircleWithText_emb_def NewCircle_emb_run run_defs field_defs new_defs)

lemma draw_ShapeBase_arg:
  "Shape_draw_arg (Shape_ShapeBase_arg (Some ShapeBase_arg)) (Shape_ShapeBase_arg (Some ShapeBase_arg)) w =
     (Inr (), w\<lparr>stdout := stdout w @ ''draw nothing-fill nothing''\<rparr>)"
  by (simp add: arg_defs run_defs)

lemma draw_Circle_arg:
  "Shape_draw_arg (Shape_Circle_arg NewCircle_arg) (Shape_Circle_arg NewCircle_arg) w =
     (Inr (), w\<lparr>stdout := stdout w @ ''Circle-fill nothing''\<rparr>)"
  by (simp add: arg_defs new_arg_defs run_defs)

lemma draw_RedRectangle_arg:
  "Shape_draw_arg (Shape_RedRectangle_arg NewRedRectangle_arg)
     (Shape_RedRectangle_arg NewRedRectangle_arg) w =
     (Inr (), w\<lparr>stdout := stdout w @ ''Rectangle-Red''\<rparr>)"
  by (simp add: arg_defs new_arg_defs run_defs)

lemma draw_BlueCircleWithText_arg:
  "Shape_draw_arg (Shape_BlueCircleWithText_arg NewBlueCircleWithText_arg)
     (Shape_BlueCircleWithText_arg NewBlueCircleWithText_arg) w =
     (Inr (), w\<lparr>stdout := stdout w @ ''Circle-Blue-TextAnnotation''\<rparr>)"
  by (simp add: arg_defs new_arg_defs run_defs)

lemma draw_ShapeBase_emb:
  "bind_run NewShapeBase_emb (\<lambda>p. Shape_draw_emb (Shape_ShapeBase_emb p)) w =
     (Inr (), (snd (NewShapeBase_emb w))\<lparr>stdout := stdout w @ ''draw nothing-fill nothing''\<rparr>)"
  by (simp add: bind_run_def NewShapeBase_emb_run) (simp add: emb_defs field_defs run_defs)

lemma draw_Circle_emb:
  "bind_run NewCircle_emb (\<lambda>p. Shape_draw_emb (Shape_Circle_emb p)) w =
     (Inr (), (snd (NewCircle_emb w))\<lparr>stdout := stdout w @ ''Circle-fill nothing''\<rparr>)"
  by (simp add: bind_run_def NewCircle_emb_run) (simp add: emb_defs field_defs run_defs)

lemma draw_RedRectangle_emb:
  "bind_run NewRedRectangle_emb (\<lambda>p. Shape_draw_emb (Shape_RedRectangle_emb p)) w =
     (Inr (), (snd (NewRedRectangle_emb w))\<lparr>stdout := stdout w @ ''Rectangle-Red''\<rparr>)"
  by (simp add: bind_run_def NewRedRectangle_emb_run) (simp add: emb_defs field_defs run_defs)

lemma draw_BlueCircleWithText_emb:
  "bind_run NewBlueCircleWithText_emb (\<lambda>p. Shape_draw_emb (Shape_BlueCircleWithText_emb p)) w =
     (Inr (), (snd (NewBlueCircleWithText_emb w))\<lparr>stdout := stdout w @ ''Circle-Blue-TextAnnotation''\<rparr>)"
  by (simp add: bind_run_def NewBlueCircleWithText_emb_run) (simp add: emb_defs field_defs run_defs)

lemma main_arg_run:
  "main_arg w = (Inr (), w\<lparr>stdout := stdout w @
      ''draw nothing-fill nothing'' @ [CHR 0x0A] @ ''Circle-fill nothing'' @ [CHR 0x0A] @
      ''Rectangle-Red'' @ [CHR 0x0A] @ ''Circle-Blue-TextAnnotation'' @ [CHR 0x0A]\<rparr>)"
  by (simp add: main_arg_def shapes_arg_def seq_def bind_run_def draw_ShapeBase_arg draw_Circle_arg
      draw_RedRectangle_arg draw_BlueCircleWithText_arg Println_def Print_def return_def)

lemma main_emb_out:
  "fst (main_emb w) = Inr () \<and> stdout (snd (main_emb w)) = stdout w @
      ''draw nothing-fill nothing'' @ [CHR 0x0A] @ ''Circle-fill nothing'' @ [CHR 0x0A] @
      ''Rectangle-Red'' @ [CHR 0x0A] @ ''Circle-Blue-TextAnnotation'' @ [CHR 0x0A]"
  by (simp add: main_emb_def bind_run_def NewShapeBase_emb_run NewCircle_emb_run
      NewRedRectangle_emb_run NewBlueCircleWithText_emb_run)
     (simp add: emb_defs field_defs run_defs)

subsection \<open>No operation writes to the store\<close>

lemma quiet_ShapeBase_ShapeAbstract: "quiet (ShapeBase_ShapeAbstract p)"
  unfolding ShapeBase_ShapeAbstract_def
  by (intro quiet_bind quiet_load) (simp_all add: quiet_return split: ShapeBase_emb.split)

lemma quiet_Circle_ShapeBase: "quiet (Circle_ShapeBase p)"
  unfolding Circle_ShapeBase_def
  by (intro quiet_bind quiet_load) (simp_all add: quiet_return split: Circle_emb.split)

lemma quiet_RedRectangle_ShapeBase: "quiet (RedRectangle_ShapeBase p)"
  unfolding RedRectangle_ShapeBase_def
  by (intro quiet_bind quiet_load) (simp_all add: quiet_return split: RedRectangle_emb.split)

lemma quiet_BlueCircleWithText_Circle: "quiet (BlueCircleWithText_Circle p)"
  unfolding BlueCircleWithText_Circle_def
  by (intro quiet_bind quiet_load) (simp_all add: quiet_return split: BlueCircleWithText_emb.split)

lemmas quiet_fields =
  quiet_ShapeBase_ShapeAbstract quiet_Circle_ShapeBase quiet_RedRectangle_ShapeBase
  quiet_BlueCircleWithText_Circle

lemma quiet_Shape_drawBoundary_emb: "quiet (Shape_drawBoundary_emb s)"
  by (cases s)
     (simp_all add: Shape_drawBoundary_emb_def ShapeBase_drawBoundary_emb_def
        Circle_drawBoundary_emb_def RedRectangle_drawBoundary_emb_def
        BlueCircleWithText_drawBoundary_emb_def quiet_panic quiet_Print quiet_bind quiet_fields)

lemma quiet_Shape_fillColor_emb: "quiet (Shape_fillColor_emb s)"
  by (cases s)
     (simp_all add: Shape_fillColor_emb_def ShapeBase_fillColor_emb_def
        Circle_fillColor_emb_def RedRectangle_fillColor_emb_def
        BlueCircleWithText_fillColor_emb_def quiet_panic quiet_Print quiet_bind quiet_fields)

lemma quiet_ShapeAbstract_draw_emb: "quiet (ShapeAbstract_draw_emb sa)"
  by (cases sa)
     (simp add: ShapeAbstract_draw_emb_def ShapeAbstract_drawBoundary_emb_def
        ShapeAbstract_fillColor_emb_def quiet_seq quiet_Print quiet_Shape_drawBoundary_emb
        quiet_Shape_fillColor_emb)

lemma quiet_ShapeBase_draw_emb: "quiet (ShapeBase_draw_emb p)"
  unfolding ShapeBase_draw_emb_def
  by (intro quiet_bind quiet_load quiet_fields quiet_ShapeAbstract_draw_emb) simp

lemma quiet_Circle_draw_emb: "quiet (Circle_draw_emb p)"
  unfolding Circle_draw_emb_def
  by (intro quiet_bind quiet_fields quiet_ShapeBase_draw_emb)

lemma quiet_Shape_draw_emb: "quiet (Shape_draw_emb s)"
  by (cases s)
     (simp_all add: Shape_draw_emb_def RedRectangle_draw_emb_def BlueCircleWithText_draw_emb_def
        quiet_panic quiet_Print quiet_bind quiet_seq quiet_fields quiet_ShapeBase_draw_emb
        quiet_Circle_draw_emb)

lemma quiet_Shape_drawBoundary_arg: "quiet (Shape_drawBoundary_arg s)"
  by (cases s)
     (simp_all add: Shape_drawBoundary_arg_def ShapeBase_drawBoundary_arg_def
        Circle_drawBoundary_arg_def RedRectangle_drawBoundary_arg_def
        BlueCircleWithText_drawBoundary_arg_def quiet_panic quiet_Print quiet_bind quiet_deref
        split: BlueCircleWithText_arg.split)

lemma quiet_Shape_fillColor_arg: "quiet (Shape_fillColor_arg s)"
  by (cases s)
     (simp_all add: Shape_fillColor_arg_def ShapeBase_fillColor_arg_def
        Circle_fillColor_arg_def RedRectangle_fillColor_arg_def
        BlueCircleWithText_fillColor_arg_def quiet_panic quiet_Print quiet_bind quiet_deref
        split: Circle_arg.split)

lemma quiet_ShapeBase_draw_arg: "quiet (ShapeBase_draw_arg p a)"
  by (simp add: ShapeBase_draw_arg_def quiet_seq quiet_Print quiet_Shape_drawBoundary_arg
      quiet_Shape_fillColor_arg)

lemma quiet_Circle_draw_arg: "quiet (Circle_draw_arg p a)"
  unfolding Circle_draw_arg_def
  by (intro quiet_bind quiet_deref) (simp add: quiet_ShapeBase_draw_arg split: Circle_arg.split)

lemma quiet_Shape_draw_arg: "quiet (Shape_draw_arg s a)"
  by (cases s)
     (simp_all add: Shape_draw_arg_def RedRectangle_draw_arg_def BlueCircleWithText_draw_arg_def
        quiet_panic quiet_Print quiet_bind quiet_seq quiet_deref quiet_ShapeBase_draw_arg
        quiet_Circle_draw_arg split: RedRectangle_arg.split BlueCircleWithText_arg.split)

lemma quiet_store:
  assumes "quiet m"
  shows "(snd (m w))\<lparr>stdout := stdout w\<rparr> = w"
proof -
  from assms obtain r t where "\<And>out. m (w\<lparr>stdout := out\<rparr>) = (r, w\<lparr>stdout := out @ t\<rparr>)"
    unfolding quiet_def by blast
  from this [of "stdout w"] show ?thesis by simp
qed

lemma bind_run_assoc:
  "bind_run (bind_run m k) h = bind_run m (\<lambda>x. bind_run (k x) h)"
  by (rule ext) (simp add: bind_run_def split: prod.split sum.split)

lemma written_append: "written w (w'\<lparr>stdout := stdout w @ t\<rparr>) = t"
  by (simp add: written_def)

text \<open>
  A Circle wrapped around a finished base instance, without the re-pointing assignment of
  \<^verbatim>\<open>NewCircle\<close>: the field still refers to the inner base, and \<^verbatim>\<open>draw\<close> prints the
  base's tokens.
\<close>

lemma Circle_without_repointing:
  "bind_run NewShapeBase_emb (\<lambda>sb. bind_run (new_Circle (Circle_emb sb)) Circle_draw_emb) v =
     (Inr (), (snd (bind_run NewShapeBase_emb (\<lambda>sb. new_Circle (Circle_emb sb)) v))
        \<lparr>stdout := stdout v @ ''draw nothing-fill nothing''\<rparr>)"
  by (simp add: bind_run_def NewShapeBase_emb_run new_Circle_def)
     (simp add: emb_defs field_defs run_defs)

subsection \<open>The composite operation in terms of the promoted field\<close>

lemma ShapeAbstract_draw_emb_field:
  "bind_run (ShapeAbstract_Shape q) (\<lambda>i. ShapeAbstract_draw_emb (ShapeAbstract_emb i)) =
     bind_run (load abstracts q) ShapeAbstract_draw_emb"
proof
  fix u
  show "bind_run (ShapeAbstract_Shape q) (\<lambda>i. ShapeAbstract_draw_emb (ShapeAbstract_emb i)) u =
      bind_run (load abstracts q) ShapeAbstract_draw_emb u"
    by (cases q; cases "abstracts u (the q)")
       (simp_all add: ShapeAbstract_Shape_def load_def bind_run_def return_def)
qed

lemma ShapeBase_draw_emb_field:
  "ShapeBase_draw_emb p =
     bind_run (ShapeBase_Shape p) (\<lambda>i. ShapeAbstract_draw_emb (ShapeAbstract_emb i))"
  by (simp add: ShapeBase_draw_emb_def ShapeBase_Shape_def bind_run_assoc
      ShapeAbstract_draw_emb_field)

lemma Circle_draw_emb_field:
  "Circle_draw_emb p =
     bind_run (Circle_Shape p) (\<lambda>i. ShapeAbstract_draw_emb (ShapeAbstract_emb i))"
  by (simp add: Circle_draw_emb_def Circle_Shape_def bind_run_assoc
      ShapeBase_draw_emb_field [symmetric])

lemma RedRectangle_draw_emb_field:
  "RedRectangle_draw_emb p =
     bind_run (RedRectangle_Shape p) (\<lambda>i. ShapeAbstract_draw_emb (ShapeAbstract_emb i))"
  by (simp add: RedRectangle_draw_emb_def RedRectangle_Shape_def bind_run_assoc
      ShapeBase_draw_emb_field [symmetric])

lemma BlueCircleWithText_draw_emb_field:
  "BlueCircleWithText_draw_emb p =
     seq (bind_run (BlueCircleWithText_Shape p)
            (\<lambda>i. ShapeAbstract_draw_emb (ShapeAbstract_emb i)))
         (Print ''-TextAnnotation'')"
  by (simp add: BlueCircleWithText_draw_emb_def BlueCircleWithText_Shape_def bind_run_assoc
      Circle_draw_emb_field [symmetric])

subsection \<open>Reading the promoted field changes nothing\<close>

lemma ShapeBase_Shape_state: "snd (ShapeBase_Shape p w) = w"
  by (simp add: field_defs bind_run_def return_def
      split: option.split ShapeBase_emb.split ShapeAbstract_emb.split)

lemma Circle_Shape_state: "snd (Circle_Shape p w) = w"
  by (simp add: field_defs bind_run_def return_def
      split: option.split Circle_emb.split ShapeBase_emb.split ShapeAbstract_emb.split)

lemma RedRectangle_Shape_state: "snd (RedRectangle_Shape p w) = w"
  by (simp add: field_defs bind_run_def return_def
      split: option.split RedRectangle_emb.split ShapeBase_emb.split ShapeAbstract_emb.split)

lemma BlueCircleWithText_Shape_state: "snd (BlueCircleWithText_Shape p w) = w"
  by (simp add: field_defs bind_run_def return_def
      split: option.split BlueCircleWithText_emb.split Circle_emb.split ShapeBase_emb.split
        ShapeAbstract_emb.split)

subsection \<open>Calls through an unset field\<close>

lemma nil_Shape_panics:
  "ShapeAbstract_draw_emb (ShapeAbstract_emb Shape_nil_emb) w = (Inl NilDereference, w)"
  "Shape_draw_emb Shape_nil_emb w = (Inl NilDereference, w)"
  "Shape_drawBoundary_emb Shape_nil_emb w = (Inl NilDereference, w)"
  "Shape_fillColor_emb Shape_nil_emb w = (Inl NilDereference, w)"
  by (simp_all add: ShapeAbstract_draw_emb_def ShapeAbstract_drawBoundary_emb_def
      Shape_draw_emb_def Shape_drawBoundary_emb_def Shape_fillColor_emb_def seq_def
      bind_run_def panic_def)

lemma unset_field_panics:
  assumes st: "snd (m w) = w"
    and un: "fst (m w) = Inr Shape_nil_emb \<or> fst (m w) = Inl NilDereference"
    and k: "k Shape_nil_emb w = (Inl NilDereference, w)"
  shows "bind_run m k w = (Inl NilDereference, w)"
proof -
  obtain r w' where mw: "m w = (r, w')" by (cases "m w")
  with st have w': "w' = w" by simp
  from un mw show ?thesis
    by (auto simp: bind_run_def w' k)
qed

section \<open>The claims\<close>

text \<open>
  C1. The driver of either program, started with nothing on standard output, ends normally
  and has written exactly the four lines
  \<^verbatim>\<open>draw nothing-fill nothing\<close>, \<^verbatim>\<open>Circle-fill nothing\<close>, \<^verbatim>\<open>Rectangle-Red\<close>,
  \<^verbatim>\<open>Circle-Blue-TextAnnotation\<close>, each ended by a newline, in that order.
\<close>

theorem demo_output:
  "main_arg start_arg =
     (Inr (), \<lparr>stdout = ''draw nothing-fill nothing'' @ [CHR 0x0A] @
                          ''Circle-fill nothing'' @ [CHR 0x0A] @
                          ''Rectangle-Red'' @ [CHR 0x0A] @
                          ''Circle-Blue-TextAnnotation'' @ [CHR 0x0A]\<rparr>)
   \<and> fst (main_emb start_emb) = Inr ()
   \<and> stdout (snd (main_emb start_emb)) =
       ''draw nothing-fill nothing'' @ [CHR 0x0A] @
       ''Circle-fill nothing'' @ [CHR 0x0A] @
       ''Rectangle-Red'' @ [CHR 0x0A] @
       ''Circle-Blue-TextAnnotation'' @ [CHR 0x0A]"
proof -
  have "stdout start_arg = []" "stdout start_emb = []"
    by (simp_all add: start_arg_def start_emb_def)
  moreover have "start_arg\<lparr>stdout := t\<rparr> = \<lparr>stdout = t\<rparr>" for t
    by (simp add: start_arg_def)
  ultimately show ?thesis
    using main_arg_run [of start_arg] main_emb_out [of start_emb] by simp
qed

text \<open>
  C2. The base composite operation calls \<^verbatim>\<open>drawBoundary\<close> through the interface value,
  stops there if that call panics, otherwise prints \<^verbatim>\<open>-\<close> and calls \<^verbatim>\<open>fillColor\<close>
  through the same interface value. In the explicit-argument program the interface value is
  the argument and the receiver plays no part; in the embedded-interface program it is the
  \<^verbatim>\<open>Shape\<close> field, also when \<^verbatim>\<open>draw\<close> is reached by promotion from a
  \<^verbatim>\<open>*ShapeBase\<close>, \<^verbatim>\<open>*Circle\<close> or \<^verbatim>\<open>*RedRectangle\<close>. With a RedRectangle behind the
  interface the output is RedRectangle's, not the base's.
\<close>

theorem draw_three_steps:
  "ShapeBase_draw_arg recv s w =
     (case Shape_drawBoundary_arg s w of
        (Inl e, w1) \<Rightarrow> (Inl e, w1)
      | (Inr _, w1) \<Rightarrow> Shape_fillColor_arg s (w1\<lparr>stdout := stdout w1 @ ''-''\<rparr>))
   \<and> Circle_draw_arg (Some (Circle_arg b)) s w = ShapeBase_draw_arg b s w
   \<and> RedRectangle_draw_arg (Some (RedRectangle_arg b)) s w = ShapeBase_draw_arg b s w
   \<and> ShapeBase_draw_arg recv (Shape_RedRectangle_arg rt) w =
       (Inr (), w\<lparr>stdout := stdout w @ ''Rectangle-Red''\<rparr>)
   \<and> ShapeAbstract_draw_emb (ShapeAbstract_emb i) v =
     (case Shape_drawBoundary_emb i v of
        (Inl e, v1) \<Rightarrow> (Inl e, v1)
      | (Inr _, v1) \<Rightarrow> Shape_fillColor_emb i (v1\<lparr>stdout := stdout v1 @ ''-''\<rparr>))
   \<and> ShapeBase_draw_emb p v =
       bind_run (ShapeBase_Shape p) (\<lambda>i. ShapeAbstract_draw_emb (ShapeAbstract_emb i)) v
   \<and> Circle_draw_emb p v =
       bind_run (Circle_Shape p) (\<lambda>i. ShapeAbstract_draw_emb (ShapeAbstract_emb i)) v
   \<and> RedRectangle_draw_emb p v =
       bind_run (RedRectangle_Shape p) (\<lambda>i. ShapeAbstract_draw_emb (ShapeAbstract_emb i)) v
   \<and> ShapeAbstract_draw_emb (ShapeAbstract_emb (Shape_RedRectangle_emb q)) v =
       (Inr (), v\<lparr>stdout := stdout v @ ''Rectangle-Red''\<rparr>)"
proof -
  have a1: "ShapeBase_draw_arg recv s w =
     (case Shape_drawBoundary_arg s w of
        (Inl e, w1) \<Rightarrow> (Inl e, w1)
      | (Inr _, w1) \<Rightarrow> Shape_fillColor_arg s (w1\<lparr>stdout := stdout w1 @ ''-''\<rparr>))"
    by (simp add: ShapeBase_draw_arg_def seq_def bind_run_def Print_def
        split: prod.split sum.split)
  have a2: "Circle_draw_arg (Some (Circle_arg b)) s w = ShapeBase_draw_arg b s w"
    by (simp add: Circle_draw_arg_def bind_run_def deref_def return_def)
  have a3: "RedRectangle_draw_arg (Some (RedRectangle_arg b)) s w = ShapeBase_draw_arg b s w"
    by (simp add: RedRectangle_draw_arg_def bind_run_def deref_def return_def)
  have a4: "ShapeBase_draw_arg recv (Shape_RedRectangle_arg rt) w =
       (Inr (), w\<lparr>stdout := stdout w @ ''Rectangle-Red''\<rparr>)"
    by (simp add: arg_defs run_defs)
  have b1: "ShapeAbstract_draw_emb (ShapeAbstract_emb i) v =
     (case Shape_drawBoundary_emb i v of
        (Inl e, v1) \<Rightarrow> (Inl e, v1)
      | (Inr _, v1) \<Rightarrow> Shape_fillColor_emb i (v1\<lparr>stdout := stdout v1 @ ''-''\<rparr>))"
    by (simp add: ShapeAbstract_draw_emb_def ShapeAbstract_drawBoundary_emb_def
        ShapeAbstract_fillColor_emb_def seq_def bind_run_def Print_def
        split: prod.split sum.split)
  note b2 = ShapeBase_draw_emb_field and b3 = Circle_draw_emb_field
    and b4 = RedRectangle_draw_emb_field
  have b5: "ShapeAbstract_draw_emb (ShapeAbstract_emb (Shape_RedRectangle_emb q)) v =
       (Inr (), v\<lparr>stdout := stdout v @ ''Rectangle-Red''\<rparr>)"
    by (simp add: emb_defs run_defs)
  from a1 a2 a3 a4 b1 b2 b3 b4 b5 show ?thesis by simp
qed

text \<open>
  C3. Embedded-interface program. Take any one instance, of any of the four types, in any
  store, whose promoted \<^verbatim>\<open>Shape\<close> field is unset: reading \<^verbatim>\<open>x.Shape\<close> yields nil, or
  there is no field to read because a pointer on the way to it is nil. Then \<^verbatim>\<open>draw\<close>,
  called on the concrete type or through an interface value holding the instance, panics
  with a nil dereference and leaves the store and standard output as they were, and so does
  each of \<^verbatim>\<open>x.Shape.draw()\<close>, \<^verbatim>\<open>x.Shape.drawBoundary()\<close> and \<^verbatim>\<open>x.Shape.fillColor()\<close>.
  Each type has its own hypothesis, on its own instance and store. The same holds for a
  \<^verbatim>\<open>ShapeAbstract\<close> value whose field is nil and for the nil interface value itself.
\<close>

theorem unwired_draw_panics:
  "(fst (ShapeBase_Shape sb wb) = Inr Shape_nil_emb
      \<or> fst (ShapeBase_Shape sb wb) = Inl NilDereference \<longrightarrow>
      ShapeBase_draw_emb sb wb = (Inl NilDereference, wb)
      \<and> Shape_draw_emb (Shape_ShapeBase_emb sb) wb = (Inl NilDereference, wb)
      \<and> bind_run (ShapeBase_Shape sb) Shape_draw_emb wb = (Inl NilDereference, wb)
      \<and> bind_run (ShapeBase_Shape sb) Shape_drawBoundary_emb wb = (Inl NilDereference, wb)
      \<and> bind_run (ShapeBase_Shape sb) Shape_fillColor_emb wb = (Inl NilDereference, wb))
   \<and> (fst (Circle_Shape c wc) = Inr Shape_nil_emb
      \<or> fst (Circle_Shape c wc) = Inl NilDereference \<longrightarrow>
      Circle_draw_emb c wc = (Inl NilDereference, wc)
      \<and> Shape_draw_emb (Shape_Circle_emb c) wc = (Inl NilDereference, wc)
      \<and> bind_run (Circle_Shape c) Shape_draw_emb wc = (Inl NilDereference, wc)
      \<and> bind_run (Circle_Shape c) Shape_drawBoundary_emb wc = (Inl NilDereference, wc)
      \<and> bind_run (Circle_Shape c) Shape_fillColor_emb wc = (Inl NilDereference, wc))
   \<and> (fst (RedRectangle_Shape rt wr) = Inr Shape_nil_emb
      \<or> fst (RedRectangle_Shape rt wr) = Inl NilDereference \<longrightarrow>
      RedRectangle_draw_emb rt wr = (Inl NilDereference, wr)
      \<and> Shape_draw_emb (Shape_RedRectangle_emb rt) wr = (Inl NilDereference, wr)
      \<and> bind_run (RedRectangle_Shape rt) Shape_draw_emb wr = (Inl NilDereference, wr)
      \<and> bind_run (RedRectangle_Shape rt) Shape_drawBoundary_emb wr = (Inl NilDereference, wr)
      \<and> bind_run (RedRectangle_Shape rt) Shape_fillColor_emb wr = (Inl NilDereference, wr))
   \<and> (fst (BlueCircleWithText_Shape bct wt) = Inr Shape_nil_emb
      \<or> fst (BlueCircleWithText_Shape bct wt) = Inl NilDereference \<longrightarrow>
      BlueCircleWithText_draw_emb bct wt = (Inl NilDereference, wt)
      \<and> Shape_draw_emb (Shape_BlueCircleWithText_emb bct) wt = (Inl NilDereference, wt)
      \<and> bind_run (BlueCircleWithText_Shape bct) Shape_draw_emb wt = (Inl NilDereference, wt)
      \<and> bind_run (BlueCircleWithText_Shape bct) Shape_drawBoundary_emb wt
          = (Inl NilDereference, wt)
      \<and> bind_run (BlueCircleWithText_Shape bct) Shape_fillColor_emb wt
          = (Inl NilDereference, wt))
   \<and> ShapeAbstract_draw_emb (ShapeAbstract_emb Shape_nil_emb) w = (Inl NilDereference, w)
   \<and> Shape_draw_emb Shape_nil_emb w = (Inl NilDereference, w)
   \<and> Shape_drawBoundary_emb Shape_nil_emb w = (Inl NilDereference, w)
   \<and> Shape_fillColor_emb Shape_nil_emb w = (Inl NilDereference, w)"
proof -
  have base: "ShapeBase_draw_emb sb wb = (Inl NilDereference, wb)
      \<and> Shape_draw_emb (Shape_ShapeBase_emb sb) wb = (Inl NilDereference, wb)
      \<and> bind_run (ShapeBase_Shape sb) Shape_draw_emb wb = (Inl NilDereference, wb)
      \<and> bind_run (ShapeBase_Shape sb) Shape_drawBoundary_emb wb = (Inl NilDereference, wb)
      \<and> bind_run (ShapeBase_Shape sb) Shape_fillColor_emb wb = (Inl NilDereference, wb)"
    if un: "fst (ShapeBase_Shape sb wb) = Inr Shape_nil_emb
      \<or> fst (ShapeBase_Shape sb wb) = Inl NilDereference"
  proof -
    note p = unset_field_panics [where m = "ShapeBase_Shape sb" and w = wb, OF ShapeBase_Shape_state un]
    have "ShapeBase_draw_emb sb wb = (Inl NilDereference, wb)"
      by (simp add: ShapeBase_draw_emb_field p nil_Shape_panics)
    moreover have "Shape_draw_emb (Shape_ShapeBase_emb sb) = ShapeBase_draw_emb sb"
      by (simp add: Shape_draw_emb_def)
    ultimately show ?thesis by (simp add: p nil_Shape_panics)
  qed
  have circle: "Circle_draw_emb c wc = (Inl NilDereference, wc)
      \<and> Shape_draw_emb (Shape_Circle_emb c) wc = (Inl NilDereference, wc)
      \<and> bind_run (Circle_Shape c) Shape_draw_emb wc = (Inl NilDereference, wc)
      \<and> bind_run (Circle_Shape c) Shape_drawBoundary_emb wc = (Inl NilDereference, wc)
      \<and> bind_run (Circle_Shape c) Shape_fillColor_emb wc = (Inl NilDereference, wc)"
    if un: "fst (Circle_Shape c wc) = Inr Shape_nil_emb
      \<or> fst (Circle_Shape c wc) = Inl NilDereference"
  proof -
    note p = unset_field_panics [where m = "Circle_Shape c" and w = wc, OF Circle_Shape_state un]
    have "Circle_draw_emb c wc = (Inl NilDereference, wc)"
      by (simp add: Circle_draw_emb_field p nil_Shape_panics)
    moreover have "Shape_draw_emb (Shape_Circle_emb c) = Circle_draw_emb c"
      by (simp add: Shape_draw_emb_def)
    ultimately show ?thesis by (simp add: p nil_Shape_panics)
  qed
  have rect: "RedRectangle_draw_emb rt wr = (Inl NilDereference, wr)
      \<and> Shape_draw_emb (Shape_RedRectangle_emb rt) wr = (Inl NilDereference, wr)
      \<and> bind_run (RedRectangle_Shape rt) Shape_draw_emb wr = (Inl NilDereference, wr)
      \<and> bind_run (RedRectangle_Shape rt) Shape_drawBoundary_emb wr = (Inl NilDereference, wr)
      \<and> bind_run (RedRectangle_Shape rt) Shape_fillColor_emb wr = (Inl NilDereference, wr)"
    if un: "fst (RedRectangle_Shape rt wr) = Inr Shape_nil_emb
      \<or> fst (RedRectangle_Shape rt wr) = Inl NilDereference"
  proof -
    note p = unset_field_panics [where m = "RedRectangle_Shape rt" and w = wr, OF RedRectangle_Shape_state un]
    have "RedRectangle_draw_emb rt wr = (Inl NilDereference, wr)"
      by (simp add: RedRectangle_draw_emb_field p nil_Shape_panics)
    moreover have "Shape_draw_emb (Shape_RedRectangle_emb rt) = RedRectangle_draw_emb rt"
      by (simp add: Shape_draw_emb_def)
    ultimately show ?thesis by (simp add: p nil_Shape_panics)
  qed
  have blue: "BlueCircleWithText_draw_emb bct wt = (Inl NilDereference, wt)
      \<and> Shape_draw_emb (Shape_BlueCircleWithText_emb bct) wt = (Inl NilDereference, wt)
      \<and> bind_run (BlueCircleWithText_Shape bct) Shape_draw_emb wt = (Inl NilDereference, wt)
      \<and> bind_run (BlueCircleWithText_Shape bct) Shape_drawBoundary_emb wt
          = (Inl NilDereference, wt)
      \<and> bind_run (BlueCircleWithText_Shape bct) Shape_fillColor_emb wt
          = (Inl NilDereference, wt)"
    if un: "fst (BlueCircleWithText_Shape bct wt) = Inr Shape_nil_emb
      \<or> fst (BlueCircleWithText_Shape bct wt) = Inl NilDereference"
  proof -
    note p = unset_field_panics [where m = "BlueCircleWithText_Shape bct" and w = wt, OF BlueCircleWithText_Shape_state un]
    have "bind_run (BlueCircleWithText_Shape bct)
            (\<lambda>i. ShapeAbstract_draw_emb (ShapeAbstract_emb i)) wt = (Inl NilDereference, wt)"
      by (simp add: p nil_Shape_panics)
    then have "BlueCircleWithText_draw_emb bct wt = (Inl NilDereference, wt)"
      by (simp add: BlueCircleWithText_draw_emb_field seq_def bind_run_def [of "bind_run a b" for a b])
    moreover have "Shape_draw_emb (Shape_BlueCircleWithText_emb bct)
        = BlueCircleWithText_draw_emb bct"
      by (simp add: Shape_draw_emb_def)
    ultimately show ?thesis by (simp add: p nil_Shape_panics)
  qed
  from base circle rect blue show ?thesis
    by (simp only: nil_Shape_panics simp_thms) blast
qed

text \<open>
  C3 applied: a lone base with nil field, a zero-valued base, and four separately allocated
  instances with nil field each satisfy their hypothesis and panic on \<^verbatim>\<open>draw\<close>, with
  standard output still empty.
\<close>

theorem unwired_draw_panics_witness:
  "fst (ShapeBase_Shape (Some 1) lone_base_emb) = Inr Shape_nil_emb
   \<and> Shape_draw_emb (Shape_ShapeBase_emb (Some 1)) lone_base_emb
       = (Inl NilDereference, lone_base_emb)
   \<and> fst (ShapeBase_Shape (Some 0) zero_base_emb) = Inl NilDereference
   \<and> Shape_draw_emb (Shape_ShapeBase_emb (Some 0)) zero_base_emb
       = (Inl NilDereference, zero_base_emb)
   \<and> fst (ShapeBase_Shape (Some 1) apart_emb) = Inr Shape_nil_emb
   \<and> Shape_draw_emb (Shape_ShapeBase_emb (Some 1)) apart_emb = (Inl NilDereference, apart_emb)
   \<and> fst (Circle_Shape (Some 4) apart_emb) = Inr Shape_nil_emb
   \<and> Shape_draw_emb (Shape_Circle_emb (Some 4)) apart_emb = (Inl NilDereference, apart_emb)
   \<and> fst (RedRectangle_Shape (Some 7) apart_emb) = Inr Shape_nil_emb
   \<and> Shape_draw_emb (Shape_RedRectangle_emb (Some 7)) apart_emb
       = (Inl NilDereference, apart_emb)
   \<and> fst (BlueCircleWithText_Shape (Some 11) apart_emb) = Inr Shape_nil_emb
   \<and> Shape_draw_emb (Shape_BlueCircleWithText_emb (Some 11)) apart_emb
       = (Inl NilDereference, apart_emb)
   \<and> stdout lone_base_emb = [] \<and> stdout zero_base_emb = [] \<and> stdout apart_emb = []"
proof -
  have l: "fst (ShapeBase_Shape (Some 1) lone_base_emb) = Inr Shape_nil_emb"
    "stdout lone_base_emb = []"
    by (simp_all add: lone_base_emb_def start_emb_def new_defs field_defs bind_run_def
        return_def)
  have z: "fst (ShapeBase_Shape (Some 0) zero_base_emb) = Inl NilDereference"
    "stdout zero_base_emb = []"
    by (simp_all add: zero_base_emb_def start_emb_def new_defs field_defs bind_run_def
        return_def)
  have a: "fst (ShapeBase_Shape (Some 1) apart_emb) = Inr Shape_nil_emb"
    "fst (Circle_Shape (Some 4) apart_emb) = Inr Shape_nil_emb"
    "fst (RedRectangle_Shape (Some 7) apart_emb) = Inr Shape_nil_emb"
    "fst (BlueCircleWithText_Shape (Some 11) apart_emb) = Inr Shape_nil_emb"
    "stdout apart_emb = []"
    by (simp_all add: apart_emb_def start_emb_def field_defs bind_run_def return_def)
  from l z a
    unwired_draw_panics [where sb = "Some 1" and wb = lone_base_emb]
    unwired_draw_panics [where sb = "Some 0" and wb = zero_base_emb]
    unwired_draw_panics [where sb = "Some 1" and wb = apart_emb and c = "Some 4"
      and wc = apart_emb and rt = "Some 7" and wr = apart_emb and bct = "Some 11"
      and wt = apart_emb]
  show ?thesis by simp
qed

text \<open>
  C4. For each of the four variants, \<^verbatim>\<open>draw\<close> on the freshly constructed instance ends
  the same way and prints the same text in the explicit-argument program and in the
  embedded-interface program, from any states; and the two drivers end the same way with
  the same standard output.
\<close>

theorem strategies_agree:
  "fst (Shape_draw_arg (Shape_ShapeBase_arg (Some ShapeBase_arg))
          (Shape_ShapeBase_arg (Some ShapeBase_arg)) w)
     = fst (bind_run NewShapeBase_emb (\<lambda>p. Shape_draw_emb (Shape_ShapeBase_emb p)) v)
   \<and> written w (snd (Shape_draw_arg (Shape_ShapeBase_arg (Some ShapeBase_arg))
          (Shape_ShapeBase_arg (Some ShapeBase_arg)) w))
     = written v (snd (bind_run NewShapeBase_emb (\<lambda>p. Shape_draw_emb (Shape_ShapeBase_emb p)) v))
   \<and> fst (Shape_draw_arg (Shape_Circle_arg NewCircle_arg) (Shape_Circle_arg NewCircle_arg) w)
     = fst (bind_run NewCircle_emb (\<lambda>p. Shape_draw_emb (Shape_Circle_emb p)) v)
   \<and> written w (snd (Shape_draw_arg (Shape_Circle_arg NewCircle_arg)
          (Shape_Circle_arg NewCircle_arg) w))
     = written v (snd (bind_run NewCircle_emb (\<lambda>p. Shape_draw_emb (Shape_Circle_emb p)) v))
   \<and> fst (Shape_draw_arg (Shape_RedRectangle_arg NewRedRectangle_arg)
          (Shape_RedRectangle_arg NewRedRectangle_arg) w)
     = fst (bind_run NewRedRectangle_emb (\<lambda>p. Shape_draw_emb (Shape_RedRectangle_emb p)) v)
   \<and> written w (snd (Shape_draw_arg (Shape_RedRectangle_arg NewRedRectangle_arg)
          (Shape_RedRectangle_arg NewRedRectangle_arg) w))
     = written v (snd (bind_run NewRedRectangle_emb
          (\<lambda>p. Shape_draw_emb (Shape_RedRectangle_emb p)) v))
   \<and> fst (Shape_draw_arg (Shape_BlueCircleWithText_arg NewBlueCircleWithText_arg)
          (Shape_BlueCircleWithText_arg NewBlueCircleWithText_arg) w)
     = fst (bind_run NewBlueCircleWithText_emb
          (\<lambda>p. Shape_draw_emb (Shape_BlueCircleWithText_emb p)) v)
   \<and> written w (snd (Shape_draw_arg (Shape_BlueCircleWithText_arg NewBlueCircleWithText_arg)
          (Shape_BlueCircleWithText_arg NewBlueCircleWithText_arg) w))
     = written v (snd (bind_run NewBlueCircleWithText_emb
          (\<lambda>p. Shape_draw_emb (Shape_BlueCircleWithText_emb p)) v))
   \<and> fst (main_arg start_arg) = fst (main_emb start_emb)
   \<and> stdout (snd (main_arg start_arg)) = stdout (snd (main_emb start_emb))"
proof -
  have "stdout start_arg = []" "stdout start_emb = []"
    by (simp_all add: start_arg_def start_emb_def)
  then have "fst (main_arg start_arg) = fst (main_emb start_emb)"
    "stdout (snd (main_arg start_arg)) = stdout (snd (main_emb start_emb))"
    using main_arg_run [of start_arg] main_emb_out [of start_emb] by simp_all
  then show ?thesis
    by (simp add: draw_ShapeBase_arg draw_Circle_arg draw_RedRectangle_arg
        draw_BlueCircleWithText_arg draw_ShapeBase_emb draw_Circle_emb draw_RedRectangle_emb
        draw_BlueCircleWithText_emb written_append)
qed

text \<open>
  C5, as stated, fails for the explicit-argument program: the Circle embedded by its
  \<^verbatim>\<open>NewBlueCircleWithText\<close> is not the one \<^verbatim>\<open>NewCircle\<close> builds.
\<close>

theorem BlueCircleWithText_not_from_NewCircle:
  "NewBlueCircleWithText_arg \<noteq> Some (BlueCircleWithText_arg NewCircle_arg)"
  by (simp add: NewBlueCircleWithText_arg_def NewCircle_arg_def)

text \<open>
  C5, amended. In the embedded-interface program \<^verbatim>\<open>NewBlueCircleWithText\<close> first runs
  \<^verbatim>\<open>NewCircle\<close>, and the instance it returns embeds the pointer \<^verbatim>\<open>NewCircle\<close> returned,
  with the Circle and the base that \<^verbatim>\<open>NewCircle\<close> built left as they were. In the
  explicit-argument program it embeds a pointer to a zero-valued Circle (nil
  \<^verbatim>\<open>*ShapeBase\<close>), which is not what \<^verbatim>\<open>NewCircle\<close> builds. In both programs
  \<^verbatim>\<open>drawBoundary\<close> on the returned instance prints \<^verbatim>\<open>Circle\<close> and \<^verbatim>\<open>fillColor\<close> of the
  embedded Circle prints \<^verbatim>\<open>fill nothing\<close>.
\<close>

theorem BlueCircleWithText_construction:
  "NewBlueCircleWithText_emb v =
     (case NewCircle_emb v of
        (Inl e, v1) \<Rightarrow> (Inl e, v1)
      | (Inr c, v1) \<Rightarrow>
          (case new_BlueCircleWithText (BlueCircleWithText_emb c) v1 of
             (Inl e, v2) \<Rightarrow> (Inl e, v2)
           | (Inr bct, v2) \<Rightarrow>
               (case BlueCircleWithText_set_Shape bct (Shape_BlueCircleWithText_emb bct) v2 of
                  (Inl e, v3) \<Rightarrow> (Inl e, v3)
                | (Inr _, v3) \<Rightarrow> (Inr bct, v3))))
   \<and> (case NewBlueCircleWithText_emb v of
        (r, v') \<Rightarrow>
          (case r of
             Inl e \<Rightarrow> False
           | Inr bct \<Rightarrow>
               BlueCircleWithText_Circle bct v' = (fst (NewCircle_emb v), v')
               \<and> circles v' = circles (snd (NewCircle_emb v))
               \<and> bases v' = bases (snd (NewCircle_emb v))
               \<and> Shape_drawBoundary_emb (Shape_BlueCircleWithText_emb bct) v'
                   = (Inr (), v'\<lparr>stdout := stdout v' @ ''Circle''\<rparr>)
               \<and> bind_run (BlueCircleWithText_Circle bct) Circle_fillColor_emb v'
                   = (Inr (), v'\<lparr>stdout := stdout v' @ ''fill nothing''\<rparr>)))
   \<and> NewBlueCircleWithText_arg = Some (BlueCircleWithText_arg (Some (Circle_arg None)))
   \<and> Some (Circle_arg None) \<noteq> NewCircle_arg
   \<and> Shape_drawBoundary_arg (Shape_BlueCircleWithText_arg NewBlueCircleWithText_arg) w
       = (Inr (), w\<lparr>stdout := stdout w @ ''Circle''\<rparr>)
   \<and> Circle_fillColor_arg (Some (Circle_arg None)) w
       = (Inr (), w\<lparr>stdout := stdout w @ ''fill nothing''\<rparr>)"
proof -
  have 1: "NewBlueCircleWithText_emb v =
     (case NewCircle_emb v of
        (Inl e, v1) \<Rightarrow> (Inl e, v1)
      | (Inr c, v1) \<Rightarrow>
          (case new_BlueCircleWithText (BlueCircleWithText_emb c) v1 of
             (Inl e, v2) \<Rightarrow> (Inl e, v2)
           | (Inr bct, v2) \<Rightarrow>
               (case BlueCircleWithText_set_Shape bct (Shape_BlueCircleWithText_emb bct) v2 of
                  (Inl e, v3) \<Rightarrow> (Inl e, v3)
                | (Inr _, v3) \<Rightarrow> (Inr bct, v3))))"
    by (simp add: NewBlueCircleWithText_emb_def bind_run_def seq_def return_def
        split: prod.split sum.split)
  have 2: "(case NewBlueCircleWithText_emb v of
        (r, v') \<Rightarrow>
          (case r of
             Inl e \<Rightarrow> False
           | Inr bct \<Rightarrow>
               BlueCircleWithText_Circle bct v' = (fst (NewCircle_emb v), v')
               \<and> circles v' = circles (snd (NewCircle_emb v))
               \<and> bases v' = bases (snd (NewCircle_emb v))
               \<and> Shape_drawBoundary_emb (Shape_BlueCircleWithText_emb bct) v'
                   = (Inr (), v'\<lparr>stdout := stdout v' @ ''Circle''\<rparr>)
               \<and> bind_run (BlueCircleWithText_Circle bct) Circle_fillColor_emb v'
                   = (Inr (), v'\<lparr>stdout := stdout v' @ ''fill nothing''\<rparr>)))"
    by (simp add: NewBlueCircleWithText_emb_run NewCircle_emb_run)
       (simp add: emb_defs field_defs run_defs)
  have 3: "NewBlueCircleWithText_arg = Some (BlueCircleWithText_arg (Some (Circle_arg None)))"
    "Some (Circle_arg None) \<noteq> NewCircle_arg"
    by (simp_all add: new_arg_defs)
  have 4: "Shape_drawBoundary_arg (Shape_BlueCircleWithText_arg NewBlueCircleWithText_arg) w
       = (Inr (), w\<lparr>stdout := stdout w @ ''Circle''\<rparr>)"
    "Circle_fillColor_arg (Some (Circle_arg None)) w
       = (Inr (), w\<lparr>stdout := stdout w @ ''fill nothing''\<rparr>)"
    by (simp_all add: arg_defs new_arg_defs run_defs)
  from 1 2 3 4 show ?thesis by (simp only: simp_thms)
qed

text \<open>
  C6. In both programs, \<^verbatim>\<open>draw\<close> called through an interface value holding a pointer
  of one of the four types is \<^verbatim>\<open>draw\<close> called on that pointer at its concrete type: same
  result, same output, same final state. In particular this holds for the instance each
  constructor returns.
\<close>

theorem dispatch_through_interface:
  "Shape_draw_arg (Shape_ShapeBase_arg sb) a w = ShapeBase_draw_arg sb a w
   \<and> Shape_draw_arg (Shape_Circle_arg c) a w = Circle_draw_arg c a w
   \<and> Shape_draw_arg (Shape_RedRectangle_arg rt) a w = RedRectangle_draw_arg rt a w
   \<and> Shape_draw_arg (Shape_BlueCircleWithText_arg bct) a w = BlueCircleWithText_draw_arg bct a w
   \<and> Shape_draw_emb (Shape_ShapeBase_emb p) v = ShapeBase_draw_emb p v
   \<and> Shape_draw_emb (Shape_Circle_emb p) v = Circle_draw_emb p v
   \<and> Shape_draw_emb (Shape_RedRectangle_emb p) v = RedRectangle_draw_emb p v
   \<and> Shape_draw_emb (Shape_BlueCircleWithText_emb p) v = BlueCircleWithText_draw_emb p v
   \<and> bind_run NewShapeBase_emb ShapeBase_draw_emb v
       = bind_run NewShapeBase_emb (\<lambda>p. Shape_draw_emb (Shape_ShapeBase_emb p)) v
   \<and> bind_run NewCircle_emb Circle_draw_emb v
       = bind_run NewCircle_emb (\<lambda>p. Shape_draw_emb (Shape_Circle_emb p)) v
   \<and> bind_run NewRedRectangle_emb RedRectangle_draw_emb v
       = bind_run NewRedRectangle_emb (\<lambda>p. Shape_draw_emb (Shape_RedRectangle_emb p)) v
   \<and> bind_run NewBlueCircleWithText_emb BlueCircleWithText_draw_emb v
       = bind_run NewBlueCircleWithText_emb
           (\<lambda>p. Shape_draw_emb (Shape_BlueCircleWithText_emb p)) v"
  by (simp add: Shape_draw_arg_def Shape_draw_emb_def)

text \<open>
  C7. \<^verbatim>\<open>BlueCircleWithText.draw\<close> runs the embedded Circle's \<^verbatim>\<open>draw\<close> first and prints
  \<^verbatim>\<open>-TextAnnotation\<close> only after that call has returned normally. On the constructed
  instance the Circle's \<^verbatim>\<open>draw\<close> prints \<^verbatim>\<open>Circle\<close> followed by \<^verbatim>\<open>-Blue\<close>, so the full
  output is \<^verbatim>\<open>Circle\<close>, \<^verbatim>\<open>-Blue\<close>, \<^verbatim>\<open>-TextAnnotation\<close> in that order.
\<close>

theorem Circle_before_TextAnnotation:
  "BlueCircleWithText_draw_arg (Some (BlueCircleWithText_arg c)) s w =
     (case Circle_draw_arg c s w of
        (Inl e, w1) \<Rightarrow> (Inl e, w1)
      | (Inr _, w1) \<Rightarrow> (Inr (), w1\<lparr>stdout := stdout w1 @ ''-TextAnnotation''\<rparr>))
   \<and> Circle_draw_arg (Some (Circle_arg None))
        (Shape_BlueCircleWithText_arg NewBlueCircleWithText_arg) w
       = (Inr (), w\<lparr>stdout := stdout w @ ''Circle'' @ ''-Blue''\<rparr>)
   \<and> BlueCircleWithText_draw_arg NewBlueCircleWithText_arg
        (Shape_BlueCircleWithText_arg NewBlueCircleWithText_arg) w
       = (Inr (), w\<lparr>stdout := stdout w @ ''Circle'' @ ''-Blue'' @ ''-TextAnnotation''\<rparr>)
   \<and> BlueCircleWithText_draw_emb p v =
     (case bind_run (BlueCircleWithText_Circle p) Circle_draw_emb v of
        (Inl e, v1) \<Rightarrow> (Inl e, v1)
      | (Inr _, v1) \<Rightarrow> (Inr (), v1\<lparr>stdout := stdout v1 @ ''-TextAnnotation''\<rparr>))
   \<and> (case NewBlueCircleWithText_emb v of
        (r, v') \<Rightarrow>
          (case r of
             Inl e \<Rightarrow> False
           | Inr bct \<Rightarrow>
               bind_run (BlueCircleWithText_Circle bct) Circle_draw_emb v'
                 = (Inr (), v'\<lparr>stdout := stdout v' @ ''Circle'' @ ''-Blue''\<rparr>)
               \<and> BlueCircleWithText_draw_emb bct v'
                 = (Inr (), v'\<lparr>stdout := stdout v' @ ''Circle'' @ ''-Blue'' @ ''-TextAnnotation''\<rparr>)))"
proof -
  have 1: "BlueCircleWithText_draw_arg (Some (BlueCircleWithText_arg c)) s w =
     (case Circle_draw_arg c s w of
        (Inl e, w1) \<Rightarrow> (Inl e, w1)
      | (Inr _, w1) \<Rightarrow> (Inr (), w1\<lparr>stdout := stdout w1 @ ''-TextAnnotation''\<rparr>))"
    by (simp add: BlueCircleWithText_draw_arg_def seq_def bind_run_def deref_def return_def
        Print_def split: prod.split sum.split)
  have 2: "Circle_draw_arg (Some (Circle_arg None))
        (Shape_BlueCircleWithText_arg NewBlueCircleWithText_arg) w
       = (Inr (), w\<lparr>stdout := stdout w @ ''Circle'' @ ''-Blue''\<rparr>)"
    by (simp add: arg_defs new_arg_defs run_defs)
  have 3: "BlueCircleWithText_draw_arg NewBlueCircleWithText_arg
        (Shape_BlueCircleWithText_arg NewBlueCircleWithText_arg) w
       = (Inr (), w\<lparr>stdout := stdout w @ ''Circle'' @ ''-Blue'' @ ''-TextAnnotation''\<rparr>)"
    by (simp add: arg_defs new_arg_defs run_defs)
  have 4: "BlueCircleWithText_draw_emb p v =
     (case bind_run (BlueCircleWithText_Circle p) Circle_draw_emb v of
        (Inl e, v1) \<Rightarrow> (Inl e, v1)
      | (Inr _, v1) \<Rightarrow> (Inr (), v1\<lparr>stdout := stdout v1 @ ''-TextAnnotation''\<rparr>))"
    by (simp add: BlueCircleWithText_draw_emb_def seq_def)
       (simp add: bind_run_def Print_def split: prod.split sum.split)
  have 5: "(case NewBlueCircleWithText_emb v of
        (r, v') \<Rightarrow>
          (case r of
             Inl e \<Rightarrow> False
           | Inr bct \<Rightarrow>
               bind_run (BlueCircleWithText_Circle bct) Circle_draw_emb v'
                 = (Inr (), v'\<lparr>stdout := stdout v' @ ''Circle'' @ ''-Blue''\<rparr>)
               \<and> BlueCircleWithText_draw_emb bct v'
                 = (Inr (), v'\<lparr>stdout := stdout v' @ ''Circle'' @ ''-Blue'' @ ''-TextAnnotation''\<rparr>)))"
    by (simp add: NewBlueCircleWithText_emb_run) (simp add: emb_defs field_defs run_defs)
  from 1 2 3 4 5 show ?thesis by (simp only: simp_thms)
qed

text \<open>
  C8. Calling the composite operation twice in succession through the same interface value
  gives the same result and prints the same text both times, in both programs; in the
  embedded-interface program \<^verbatim>\<open>draw\<close>, \<^verbatim>\<open>drawBoundary\<close> and \<^verbatim>\<open>fillColor\<close> leave every
  struct in the store as it was.
\<close>

theorem draw_twice_same_output:
  "(case Shape_draw_arg s a w of (r1, w1) \<Rightarrow>
      case Shape_draw_arg s a w1 of (r2, w2) \<Rightarrow>
        r2 = r1 \<and> written w1 w2 = written w w1)
   \<and> (case Shape_draw_emb s' v of (r1, v1) \<Rightarrow>
      case Shape_draw_emb s' v1 of (r2, v2) \<Rightarrow>
        r2 = r1 \<and> written v1 v2 = written v v1 \<and> v1\<lparr>stdout := stdout v\<rparr> = v)
   \<and> (snd (Shape_drawBoundary_emb s' v))\<lparr>stdout := stdout v\<rparr> = v
   \<and> (snd (Shape_fillColor_emb s' v))\<lparr>stdout := stdout v\<rparr> = v"
proof -
  obtain r1 w1 where 1: "Shape_draw_arg s a w = (r1, w1)"
    by (cases "Shape_draw_arg s a w")
  obtain r2 w2 where 2: "Shape_draw_arg s a w1 = (r2, w2)"
    by (cases "Shape_draw_arg s a w1")
  obtain q1 v1 where 3: "Shape_draw_emb s' v = (q1, v1)"
    by (cases "Shape_draw_emb s' v")
  obtain q2 v2 where 4: "Shape_draw_emb s' v1 = (q2, v2)"
    by (cases "Shape_draw_emb s' v1")
  note arg = quiet_twice [OF quiet_Shape_draw_arg 1 2]
  note emb = quiet_twice [OF quiet_Shape_draw_emb 3 4]
  from arg emb show ?thesis
    by (simp add: 1 2 3 4 quiet_store [OF quiet_Shape_drawBoundary_emb]
        quiet_store [OF quiet_Shape_fillColor_emb])
qed


text \<open>
  C10. Explicit-argument program: \<^verbatim>\<open>NewBlueCircleWithText\<close> embeds a zero-valued Circle
  whose \<^verbatim>\<open>*ShapeBase\<close> is nil. All three operations called through the interface on the
  returned instance end normally; \<^verbatim>\<open>draw\<close> prints \<^verbatim>\<open>Circle-Blue-TextAnnotation\<close>. The
  base \<^verbatim>\<open>draw\<close> is the method reached with the nil receiver, and it behaves as with a
  non-nil one; \<^verbatim>\<open>drawBoundary\<close> is Circle's and \<^verbatim>\<open>fillColor\<close> is BlueCircleWithText's.
\<close>

theorem zero_Circle_is_enough:
  "NewBlueCircleWithText_arg = Some (BlueCircleWithText_arg (Some (Circle_arg None)))
   \<and> Shape_draw_arg (Shape_BlueCircleWithText_arg NewBlueCircleWithText_arg)
        (Shape_BlueCircleWithText_arg NewBlueCircleWithText_arg) w
       = (Inr (), w\<lparr>stdout := stdout w @ ''Circle-Blue-TextAnnotation''\<rparr>)
   \<and> Shape_drawBoundary_arg (Shape_BlueCircleWithText_arg NewBlueCircleWithText_arg) w
       = (Inr (), w\<lparr>stdout := stdout w @ ''Circle''\<rparr>)
   \<and> Shape_fillColor_arg (Shape_BlueCircleWithText_arg NewBlueCircleWithText_arg) w
       = (Inr (), w\<lparr>stdout := stdout w @ ''Blue''\<rparr>)
   \<and> Circle_draw_arg (Some (Circle_arg None)) s w = ShapeBase_draw_arg None s w
   \<and> ShapeBase_draw_arg None s w = ShapeBase_draw_arg (Some ShapeBase_arg) s w
   \<and> Shape_drawBoundary_arg (Shape_BlueCircleWithText_arg NewBlueCircleWithText_arg) w
       = Circle_drawBoundary_arg (Some (Circle_arg None)) w
   \<and> Shape_fillColor_arg (Shape_BlueCircleWithText_arg NewBlueCircleWithText_arg) w
       = BlueCircleWithText_fillColor_arg NewBlueCircleWithText_arg w"
proof -
  have 1: "NewBlueCircleWithText_arg = Some (BlueCircleWithText_arg (Some (Circle_arg None)))"
    by (simp add: new_arg_defs)
  have 2: "Shape_drawBoundary_arg (Shape_BlueCircleWithText_arg NewBlueCircleWithText_arg) w
       = (Inr (), w\<lparr>stdout := stdout w @ ''Circle''\<rparr>)"
    "Shape_fillColor_arg (Shape_BlueCircleWithText_arg NewBlueCircleWithText_arg) w
       = (Inr (), w\<lparr>stdout := stdout w @ ''Blue''\<rparr>)"
    "Circle_drawBoundary_arg (Some (Circle_arg None)) w
       = (Inr (), w\<lparr>stdout := stdout w @ ''Circle''\<rparr>)"
    "BlueCircleWithText_fillColor_arg NewBlueCircleWithText_arg w
       = (Inr (), w\<lparr>stdout := stdout w @ ''Blue''\<rparr>)"
    by (simp_all add: arg_defs new_arg_defs run_defs)
  have 3: "Circle_draw_arg (Some (Circle_arg None)) s w = ShapeBase_draw_arg None s w"
    "ShapeBase_draw_arg None s w = ShapeBase_draw_arg (Some ShapeBase_arg) s w"
    by (simp_all add: Circle_draw_arg_def ShapeBase_draw_arg_def bind_run_def deref_def
        return_def)
  from 1 [symmetric] 2 3 draw_BlueCircleWithText_arg [of w] show ?thesis
    by (simp only: simp_thms)
qed

end
